theory Spec2Isabelle
  imports Complex_Main "HOL-Library.Char_ord" "HOL-Library.List_Lexorder"
begin

section \<open>Data model\<close>

text \<open>
  The program is a single Python module, \<^verbatim>\<open>streamlit_app.py\<close>. It reads a spreadsheet
  into a pandas DataFrame and is written to enumerate every non-empty combination of the
  predictor columns, to fit one OLS model per combination and per year scenario
  (statsmodels), and to lay the results out as rows of a summary sheet.

  Exceptions are values of \<open>error\<close>; a function of the source that can raise returns
  \<open>error + 'a\<close> with \<open>Inl\<close> for the exception.
\<close>

datatype error =
    KeyError | IndexError | ValueError | AttributeError | TypeError | StreamlitAPIException

text \<open>
  The numbers statsmodels hands back (\<^verbatim>\<open>model.ssr\<close>, \<^verbatim>\<open>model.df_resid\<close>, ...) are numpy
  \<^verbatim>\<open>float64\<close> values. Their arithmetic never raises: dividing by zero gives an infinity
  or NaN (with a RuntimeWarning). \<open>npfloat\<close> keeps exactly that structure: a finite
  real, the two infinities, or NaN. Rounding, overflow and the sign of zero are left out.
\<close>

datatype npfloat = Fin real | PInf | NInf | NaN

fun np_add :: "npfloat \<Rightarrow> npfloat \<Rightarrow> npfloat" where
  "np_add NaN _ = NaN"
| "np_add _ NaN = NaN"
| "np_add (Fin x) (Fin y) = Fin (x + y)"
| "np_add PInf NInf = NaN"
| "np_add NInf PInf = NaN"
| "np_add PInf _ = PInf"
| "np_add _ PInf = PInf"
| "np_add NInf _ = NInf"
| "np_add _ NInf = NInf"

fun np_div :: "npfloat \<Rightarrow> npfloat \<Rightarrow> npfloat" where
  "np_div NaN _ = NaN"
| "np_div _ NaN = NaN"
| "np_div (Fin x) (Fin y) =
     (if y = 0 then (if x = 0 then NaN else if 0 < x then PInf else NInf)
      else Fin (x / y))"
| "np_div (Fin x) _ = Fin 0"
| "np_div PInf (Fin y) = (if 0 \<le> y then PInf else NInf)"
| "np_div NInf (Fin y) = (if 0 \<le> y then NInf else PInf)"
| "np_div _ _ = NaN"

text \<open>
  A DataFrame: the header and the rows, each row holding one number per column.
\<close>

record dataframe =
  columns :: "string list"
  rows :: "real list list"

text \<open>
  Of a fitted statsmodels result the program reads the sums of squares, the degrees of
  freedom, the p-value of the F test, and the coefficient table: the value of
  \<^verbatim>\<open>pd.read_html(model.summary().tables[1].as_html(), header=0, index_col=0)[0]\<close>.
  Building the summary can raise, so the table is an exception or a list of rows. The
  rows are what pandas reads back from the HTML: the first cell of a row is the term
  name as text, or NaN when pandas takes the text for a missing value (a term named
  \<^verbatim>\<open>NA\<close>, for one); the other cells are the printed numbers. A name column read back
  as numbers is not modelled.
\<close>

datatype name_cell = Name string | Missing

type_synonym coef_row = "name_cell \<times> npfloat list"

record ols_model =
  ssr :: npfloat
  ess :: npfloat
  df_resid :: npfloat
  df_model :: npfloat
  f_pvalue :: npfloat
  summary_table :: "error + coef_row list"

text \<open>
  \<^verbatim>\<open>sm.OLS(Y, X).fit()\<close> and the pandas conversions before it are library code. The
  fitter is therefore a parameter of everything below: any function from the filtered
  frame, the response name and the predictor names to a model or an exception.
\<close>

type_synonym fitter = "dataframe \<Rightarrow> string \<Rightarrow> string list \<Rightarrow> error + ols_model"

text \<open>
  The ANOVA frame has the index \<^verbatim>\<open>Regression, Residual, Total\<close> and the columns
  \<^verbatim>\<open>df, SS, MS, F, Significance F\<close>. The last column holds the string
  \<^verbatim>\<open>f"{p_value:.4f}"\<close> in the first row and \<^verbatim>\<open>np.nan\<close> below it.
\<close>

datatype sig_cell = Formatted4 npfloat | SigNaN

record anova_row =
  col_df :: npfloat
  col_SS :: npfloat
  col_MS :: npfloat
  col_F :: npfloat
  col_Significance_F :: sig_cell

record anova_table =
  Regression :: anova_row
  Residual :: anova_row
  Total :: anova_row

text \<open>The tuple appended to \<^verbatim>\<open>scenario_results\<close> for each combination.\<close>

record model_result =
  output_df :: "coef_row list"
  selected_years :: "int list"
  y_variable_name :: string
  model :: ols_model
  res_anova_table :: anova_table
  selected_x_vars :: "string list"
  idx :: nat

text \<open>The attributes of \<^verbatim>\<open>RegressionApp\<close> (the start time is not modelled).\<close>

record regression_app =
  app_df :: "dataframe option"
  variables :: "string list"
  scenarios :: "(string \<times> int list) list"
  num_combinations :: nat
  total_regressions :: nat
  completed_regressions :: nat

section \<open>Scenarios\<close>

definition predefined_years :: "(string \<times> int list) list" where
  "predefined_years =
    [(''2001-2023'', [2001..2023]),
     (''2005 - 2023 excluding 2009, 2016'',
        filter (\<lambda>year. year \<notin> {2009, 2016}) [2005..2023]),
     (''2001-2023 excluding 2020, 2021, 2022'',
        filter (\<lambda>year. year \<notin> {2020, 2021, 2022}) [2001..2023]),
     (''2001-2019'', [2001..2019]),
     (''2001-2023 excluding 2009, 2013, 2020, 2021, 2022'',
        filter (\<lambda>year. year \<notin> {2009, 2013, 2020, 2021, 2022}) [2001..2023])]"

definition RegressionApp_init :: regression_app where
  "RegressionApp_init =
    \<lparr>app_df = None, variables = [], scenarios = predefined_years,
     num_combinations = 0, total_regressions = 0, completed_regressions = 0\<rparr>"

text \<open>
  \<^verbatim>\<open>if not years: years = predefined_years[scenario_name]\<close>; the dictionary lookup
  raises KeyError for an unknown name.
\<close>

definition effective_years :: "string \<Rightarrow> int list \<Rightarrow> error + int list" where
  "effective_years scenario_name years =
    (if years = [] then
       (case map_of predefined_years scenario_name of
          None \<Rightarrow> Inl KeyError
        | Some ys \<Rightarrow> Inr ys)
     else Inr years)"

section \<open>Subset enumeration\<close>

text \<open>
  \<^verbatim>\<open>itertools.combinations(iterable, r)\<close>: the \<open>r\<close>-element subsequences of the input,
  in lexicographic order of the positions they are drawn from.
\<close>

fun itertools_combinations :: "'a list \<Rightarrow> nat \<Rightarrow> 'a list list" where
  "itertools_combinations xs 0 = [[]]"
| "itertools_combinations [] (Suc r) = []"
| "itertools_combinations (x # xs) (Suc r) =
     map ((#) x) (itertools_combinations xs r) @ itertools_combinations xs (Suc r)"

text \<open>
  \<^verbatim>\<open>itertools.chain_from_iterable\<close>, as \<^verbatim>\<open>process_scenario\<close> spells it. The module
  \<^verbatim>\<open>itertools\<close> has \<^verbatim>\<open>chain\<close> and its method \<^verbatim>\<open>chain.from_iterable\<close>, and no
  attribute of this name: looking it up raises AttributeError, whatever the argument.
\<close>

definition itertools_chain_from_iterable :: "'a list list \<Rightarrow> error + 'a list" where
  "itertools_chain_from_iterable groups = Inl AttributeError"

text \<open>
  \<^verbatim>\<open>list(itertools.chain_from_iterable(itertools.combinations(variables, r)
         for r in range(1, num_variables + 1)))\<close>
\<close>

definition all_combinations :: "'a list \<Rightarrow> error + 'a list list" where
  "all_combinations vs =
     itertools_chain_from_iterable (map (itertools_combinations vs) [1 ..< length vs + 1])"

section \<open>Column binding and year filtering\<close>

text \<open>\<^verbatim>\<open>df.columns[2:].tolist()\<close> and \<^verbatim>\<open>df.columns[1]\<close> (IndexError out of range).\<close>

definition predictor_columns :: "dataframe \<Rightarrow> string list" where
  "predictor_columns d = drop 2 (columns d)"

definition response_column :: "dataframe \<Rightarrow> error + string" where
  "response_column d =
     (if 1 < length (columns d) then Inr (columns d ! 1) else Inl IndexError)"

fun column_position :: "string list \<Rightarrow> string \<Rightarrow> nat option" where
  "column_position [] name = None"
| "column_position (c # cs) name =
     (if c = name then Some 0 else map_option Suc (column_position cs name))"

text \<open>
  \<^verbatim>\<open>self.df[self.df['Year'].isin(years)]\<close>: the rows whose Year cell is one of the
  years; KeyError when there is no such column.
\<close>

definition select_years :: "dataframe \<Rightarrow> int list \<Rightarrow> error + dataframe" where
  "select_years d years =
     (case column_position (columns d) ''Year'' of
        None \<Rightarrow> Inl KeyError
      | Some i \<Rightarrow>
          Inr (d\<lparr>rows := filter (\<lambda>r. i < length r \<and> r ! i \<in> set (map of_int years))
                           (rows d)\<rparr>))"

section \<open>Fitting and the ANOVA table\<close>

definition run_single_regression ::
  "fitter \<Rightarrow> dataframe \<Rightarrow> string \<Rightarrow> string list \<Rightarrow> error + ols_model" where
  "run_single_regression fit d y_var x_vars = fit d y_var x_vars"

definition format_regression_output :: "ols_model \<Rightarrow> error + coef_row list" where
  "format_regression_output m = summary_table m"

definition calculate_anova_table :: "ols_model \<Rightarrow> anova_table" where
  "calculate_anova_table m =
    (let sse = ssr m;
         ssr = ess m;
         sst = np_add ssr sse;
         dfe = df_resid m;
         dfr = df_model m;
         dft = np_add dfr dfe;
         mse = np_div sse dfe;
         msr = np_div ssr dfr;
         f_stat = np_div msr mse;
         p_value = f_pvalue m
     in \<lparr>Regression =
            \<lparr>col_df = dfr, col_SS = ssr, col_MS = msr, col_F = f_stat,
             col_Significance_F = Formatted4 p_value\<rparr>,
         Residual =
            \<lparr>col_df = dfe, col_SS = sse, col_MS = mse, col_F = NaN,
             col_Significance_F = SigNaN\<rparr>,
         Total =
            \<lparr>col_df = dft, col_SS = sst, col_MS = NaN, col_F = NaN,
             col_Significance_F = SigNaN\<rparr>\<rparr>)"

section \<open>The scenario runner\<close>

text \<open>
  \<^verbatim>\<open>update_progress\<close> returns at once while \<^verbatim>\<open>total_regressions\<close> is 0. Otherwise it
  hands the fraction \<^verbatim>\<open>completed_regressions / total_regressions\<close> to the progress
  bar, which raises for a value above 1.
\<close>

definition update_progress :: "regression_app \<Rightarrow> error + real option" where
  "update_progress app =
     (if total_regressions app = 0 then Inr None
      else if total_regressions app < completed_regressions app then Inl StreamlitAPIException
      else Inr (Some (real (completed_regressions app) / real (total_regressions app))))"

text \<open>
  The loop of \<^verbatim>\<open>process_scenario\<close> over \<^verbatim>\<open>enumerate(combinations, start=1)\<close>. There is
  no \<^verbatim>\<open>try\<close> in it: an exception of the fit, of the summary or of the progress bar
  leaves the loop and the function, and the results appended so far are lost with the
  local list. Each finished fit adds one to \<^verbatim>\<open>self.completed_regressions\<close>.
\<close>

fun fit_combinations ::
  "fitter \<Rightarrow> dataframe \<Rightarrow> dataframe \<Rightarrow> int list \<Rightarrow> (nat \<times> string list) list \<Rightarrow>
   model_result list \<Rightarrow> regression_app \<Rightarrow> (error + model_result list) \<times> regression_app" where
  "fit_combinations fit d df_selected years [] scenario_results app =
     (Inr scenario_results, app)"
| "fit_combinations fit d df_selected years ((i, x_vars) # rest) scenario_results app =
     (case response_column d of
        Inl e \<Rightarrow> (Inl e, app)
      | Inr y \<Rightarrow>
         (case run_single_regression fit df_selected y x_vars of
            Inl e \<Rightarrow> (Inl e, app)
          | Inr m \<Rightarrow>
             (case format_regression_output m of
                Inl e \<Rightarrow> (Inl e, app)
              | Inr out \<Rightarrow>
                 (let app1 = app\<lparr>completed_regressions := completed_regressions app + 1\<rparr>
                  in case update_progress app1 of
                       Inl e \<Rightarrow> (Inl e, app1)
                     | Inr shown \<Rightarrow>
                         fit_combinations fit d df_selected years rest
                           (scenario_results @
                              [\<lparr>output_df = out, selected_years = years,
                                y_variable_name = y, model = m,
                                res_anova_table = calculate_anova_table m,
                                selected_x_vars = x_vars, idx = i\<rparr>])
                           app1))))"

type_synonym task_result = "error + string \<times> model_result list"

text \<open>
  \<^verbatim>\<open>process_scenario\<close>: the years, the filtered frame, the enumeration, the loop. The
  enumeration raises (see \<open>itertools_chain_from_iterable\<close>), so the loop is not
  reached.
\<close>

definition process_scenario ::
  "fitter \<Rightarrow> dataframe \<Rightarrow> regression_app \<Rightarrow> string \<times> int list \<Rightarrow>
   task_result \<times> regression_app" where
  "process_scenario fit d app sc =
     (case sc of (scenario_name, years0) \<Rightarrow>
       (case effective_years scenario_name years0 of
          Inl e \<Rightarrow> (Inl e, app)
        | Inr years \<Rightarrow>
           (case select_years d years of
              Inl e \<Rightarrow> (Inl e, app)
            | Inr df_selected \<Rightarrow>
               (case all_combinations (predictor_columns d) of
                  Inl e \<Rightarrow> (Inl e, app)
                | Inr combinations \<Rightarrow>
                   (case fit_combinations fit d df_selected years
                           (enumerate 1 combinations) [] app of
                      (Inl e, app') \<Rightarrow> (Inl e, app')
                    | (Inr scenario_results, app') \<Rightarrow>
                        (Inr (scenario_name, scenario_results), app'))))))"

section \<open>The batch scheduler\<close>

text \<open>
  \<^verbatim>\<open>executor.submit\<close> gives one future per scenario, kept in submission order. The pool
  finishes the tasks in some order of its own, here the list \<open>order\<close> of task numbers
  (a task runs once; a number that names no task is skipped). A task is taken as one
  step on the shared application state.
\<close>

fun run_tasks ::
  "fitter \<Rightarrow> dataframe \<Rightarrow> (string \<times> int list) list \<Rightarrow> nat list \<Rightarrow>
   (nat \<rightharpoonup> task_result) \<Rightarrow> regression_app \<Rightarrow> (nat \<rightharpoonup> task_result) \<times> regression_app" where
  "run_tasks fit d scs [] futures app = (futures, app)"
| "run_tasks fit d scs (i # order) futures app =
     (if i < length scs \<and> futures i = None then
        (case process_scenario fit d app (scs ! i) of
           (r, app') \<Rightarrow> run_tasks fit d scs order (futures(i \<mapsto> r)) app')
      else run_tasks fit d scs order futures app)"

text \<open>
  What a call of \<^verbatim>\<open>run_regression_scenarios\<close> comes to: the warning without a file, the
  error message without a Year column, an exception, the collected list, or a wait that
  never ends because a task was never finished.
\<close>

datatype batch_outcome =
    NoFile
  | MissingYear
  | Blocked
  | Raised error
  | Completed "(string \<times> model_result list) list"

text \<open>
  \<^verbatim>\<open>for future in futures: all_results.append(future.result())\<close>; \<^verbatim>\<open>result()\<close> waits for
  the task and raises again what the task raised.
\<close>

fun collect_results ::
  "(nat \<rightharpoonup> task_result) \<Rightarrow> nat list \<Rightarrow> (string \<times> model_result list) list \<Rightarrow>
   batch_outcome" where
  "collect_results futures [] all_results = Completed all_results"
| "collect_results futures (i # rest) all_results =
     (case futures i of
        None \<Rightarrow> Blocked
      | Some (Inl e) \<Rightarrow> Raised e
      | Some (Inr r) \<Rightarrow> collect_results futures rest (all_results @ [r]))"

text \<open>
  \<^verbatim>\<open>run_regression_scenarios\<close> up to the end of the \<^verbatim>\<open>with\<close> block, where
  \<^verbatim>\<open>all_results\<close> is complete; the export and the page rerun that follow consume it.
\<close>

definition run_regression_scenarios ::
  "fitter \<Rightarrow> nat list \<Rightarrow> regression_app \<Rightarrow> batch_outcome \<times> regression_app" where
  "run_regression_scenarios fit order app =
     (case app_df app of
        None \<Rightarrow> (NoFile, app)
      | Some d \<Rightarrow>
          if ''Year'' \<notin> set (columns d) then (MissingYear, app)
          else
            (case run_tasks fit d (scenarios app) order Map.empty app of
               (futures, app') \<Rightarrow>
                 (collect_results futures [0 ..< length (scenarios app)] [], app')))"

section \<open>Progress accounting and the page script\<close>

definition choose_file :: "dataframe option \<Rightarrow> regression_app \<Rightarrow> regression_app" where
  "choose_file file app =
     (case file of
        None \<Rightarrow> app
      | Some d \<Rightarrow> app\<lparr>app_df := Some d, variables := predictor_columns d\<rparr>)"

definition show_variable_selection :: "regression_app \<Rightarrow> regression_app" where
  "show_variable_selection app =
     (case app_df app of
        None \<Rightarrow> app
      | Some d \<Rightarrow>
          (let vs = predictor_columns d;
               n = sum_list (map (\<lambda>i. length (itertools_combinations vs i))
                               [1 ..< length vs + 1])
           in app\<lparr>variables := vs, num_combinations := n, total_regressions := 5 * n\<rparr>))"

text \<open>
  One run of the page script \<^verbatim>\<open>main\<close>: a fresh \<^verbatim>\<open>RegressionApp\<close>, the upload, then the
  batch when the button was pressed, and only after it \<^verbatim>\<open>show_variable_selection\<close>. A
  batch that raised or that completed (its last statement reruns the page) ends the
  script run there.
\<close>

definition main ::
  "fitter \<Rightarrow> nat list \<Rightarrow> dataframe option \<Rightarrow> bool \<Rightarrow> batch_outcome option \<times> regression_app" where
  "main fit order file button =
     (let app = choose_file file RegressionApp_init in
      if button then
        (case run_regression_scenarios fit order app of
           (NoFile, app') \<Rightarrow> (Some NoFile, show_variable_selection app')
         | (MissingYear, app') \<Rightarrow> (Some MissingYear, show_variable_selection app')
         | (out, app') \<Rightarrow> (Some out, app'))
      else (None, show_variable_selection app))"

section \<open>The coefficient rows of the summary sheet\<close>











section \<open>Sample data\<close>

text \<open>
  A fitter for the worked examples. Like the library it raises on a frame without rows
  and returns a model otherwise; the summary of a model fitted to a single row raises.
  The coefficient table lists \<^verbatim>\<open>const\<close> and the predictors in the order given.
\<close>

definition sample_fit :: fitter where
  "sample_fit d y_var x_vars =
     (if rows d = [] then Inl ValueError
      else Inr \<lparr>ssr = Fin 2, ess = Fin 8,
                df_resid = Fin (real (length (rows d) - length x_vars - 1)),
                df_model = Fin (real (length x_vars)),
                f_pvalue = Fin (1 / 20),
                summary_table =
                  (if length (rows d) = 1 then Inl ValueError
                   else Inr ((Name ''const'', [Fin 1]) #
                             map (\<lambda>x. (Name x, [Fin 2])) x_vars))\<rparr>)"

definition sample_frame :: dataframe where
  "sample_frame =
     \<lparr>columns = [''Year'', ''Y'', ''A''],
      rows = [[2005, 10, 1], [2006, 12, 2], [2007, 15, 4], [2008, 19, 5]]\<rparr>"

definition late_frame :: dataframe where
  "late_frame =
     \<lparr>columns = [''Year'', ''Y'', ''A''],
      rows = [[2020, 10, 1], [2021, 12, 2], [2022, 15, 4], [2023, 19, 5]]\<rparr>"

definition sample_model :: ols_model where
  "sample_model = \<lparr>ssr = Fin 2, ess = Fin 8, df_resid = Fin 2, df_model = Fin 1,
     f_pvalue = Fin (1 / 20),
     summary_table = Inr [(Name ''const'', [Fin 1]), (Name ''A'', [Fin 2])]\<rparr>"

definition yearless_frame :: dataframe where
  "yearless_frame = \<lparr>columns = [''Date'', ''Y'', ''A''], rows = [[2001, 10, 1]]\<rparr>"

definition saturated_model :: ols_model where
  "saturated_model = \<lparr>ssr = Fin 0, ess = Fin 8, df_resid = Fin 0, df_model = Fin 1,
     f_pvalue = NaN,
     summary_table = Inr [(Name ''const'', [Fin 1]), (Name ''A'', [Fin 2])]\<rparr>"

definition year_last_frame :: dataframe where
  "year_last_frame =
     \<lparr>columns = [''Region'', ''Y'', ''A'', ''Year''],
      rows = [[1, 10, 1, 2005], [1, 12, 2, 2006], [1, 15, 4, 2007], [1, 19, 5, 2008],
              [1, 20, 7, 2010]]\<rparr>"

definition two_predictor_frame :: dataframe where
  "two_predictor_frame =
     \<lparr>columns = [''Year'', ''Y'', ''A'', ''B''],
      rows = [[2001, 10, 1, 3], [2002, 12, 2, 1], [2003, 15, 4, 4], [2004, 19, 5, 9],
              [2005, 20, 7, 2]]\<rparr>"




section \<open>Properties of the ANOVA table\<close>

text \<open>
  Claim C4. In every ANOVA table the program builds, the Total row's degrees of freedom
  and sum of squares are the sums of the Regression and Residual entries, the mean
  square of the Regression and of the Residual row is its sum of squares divided by its
  degrees of freedom, F is the quotient of the two mean squares, and the cells MS, F,
  Significance F of the Total row and F, Significance F of the Residual row hold NaN
  (pandas' marker of an absent value). On finite inputs with nonzero divisors the sums
  and quotients are those of the real numbers.
\<close>

theorem anova_table_invariants:
  "col_df (Total (calculate_anova_table m)) =
     np_add (col_df (Regression (calculate_anova_table m)))
            (col_df (Residual (calculate_anova_table m))) \<and>
   col_SS (Total (calculate_anova_table m)) =
     np_add (col_SS (Regression (calculate_anova_table m)))
            (col_SS (Residual (calculate_anova_table m))) \<and>
   col_MS (Regression (calculate_anova_table m)) =
     np_div (col_SS (Regression (calculate_anova_table m)))
            (col_df (Regression (calculate_anova_table m))) \<and>
   col_MS (Residual (calculate_anova_table m)) =
     np_div (col_SS (Residual (calculate_anova_table m)))
            (col_df (Residual (calculate_anova_table m))) \<and>
   col_F (Regression (calculate_anova_table m)) =
     np_div (col_MS (Regression (calculate_anova_table m)))
            (col_MS (Residual (calculate_anova_table m))) \<and>
   col_MS (Total (calculate_anova_table m)) = NaN \<and>
   col_F (Total (calculate_anova_table m)) = NaN \<and>
   col_Significance_F (Total (calculate_anova_table m)) = SigNaN \<and>
   col_F (Residual (calculate_anova_table m)) = NaN \<and>
   col_Significance_F (Residual (calculate_anova_table m)) = SigNaN \<and>
   (\<forall>s e a b. ssr m = Fin s \<and> ess m = Fin e \<and> df_model m = Fin a \<and> df_resid m = Fin b \<and>
        a \<noteq> 0 \<and> b \<noteq> 0 \<and> s \<noteq> 0 \<longrightarrow>
      col_df (Total (calculate_anova_table m)) = Fin (a + b) \<and>
      col_SS (Total (calculate_anova_table m)) = Fin (e + s) \<and>
      col_MS (Regression (calculate_anova_table m)) = Fin (e / a) \<and>
      col_MS (Residual (calculate_anova_table m)) = Fin (s / b) \<and>
      col_F (Regression (calculate_anova_table m)) = Fin ((e / a) / (s / b)))"
  by (simp add: calculate_anova_table_def Let_def)


theorem anova_table_invariants_witness:
  "col_df (Total (calculate_anova_table sample_model)) = Fin 3 \<and>
   col_SS (Total (calculate_anova_table sample_model)) = Fin 10 \<and>
   col_MS (Regression (calculate_anova_table sample_model)) = Fin 8 \<and>
   col_MS (Residual (calculate_anova_table sample_model)) = Fin 1 \<and>
   col_F (Regression (calculate_anova_table sample_model)) = Fin 8"
proof -
  have h: "ssr sample_model = Fin 2 \<and> ess sample_model = Fin 8 \<and>
           df_model sample_model = Fin 1 \<and> df_resid sample_model = Fin 2 \<and>
           (1::real) \<noteq> 0 \<and> (2::real) \<noteq> 0 \<and> (2::real) \<noteq> 0"
    by (simp add: sample_model_def)
  from anova_table_invariants [of sample_model]
  have "\<forall>s e a b. ssr sample_model = Fin s \<and> ess sample_model = Fin e \<and>
          df_model sample_model = Fin a \<and> df_resid sample_model = Fin b \<and>
          a \<noteq> 0 \<and> b \<noteq> 0 \<and> s \<noteq> 0 \<longrightarrow>
      col_df (Total (calculate_anova_table sample_model)) = Fin (a + b) \<and>
      col_SS (Total (calculate_anova_table sample_model)) = Fin (e + s) \<and>
      col_MS (Regression (calculate_anova_table sample_model)) = Fin (e / a) \<and>
      col_MS (Residual (calculate_anova_table sample_model)) = Fin (s / b) \<and>
      col_F (Regression (calculate_anova_table sample_model)) = Fin ((e / a) / (s / b))"
    by (elim conjE)
  from this [rule_format, of 2 8 1 2] h show ?thesis by simp
qed

text \<open>
  Claim C5, as the code has it. The ANOVA calculator is a function of the model alone
  and has no failure path: it returns the three rows for every model. With residual
  degrees of freedom 0 the Residual mean square is the numpy quotient by zero (NaN for
  a zero sum of squares, otherwise an infinity), not an error; with positive residual
  degrees of freedom and a finite sum of squares it is their real quotient.
\<close>

theorem anova_no_failure_path:
  "col_df (Residual (calculate_anova_table m)) = df_resid m \<and>
   col_MS (Residual (calculate_anova_table m)) = np_div (ssr m) (df_resid m) \<and>
   (\<forall>s. ssr m = Fin s \<and> df_resid m = Fin 0 \<longrightarrow>
      col_MS (Residual (calculate_anova_table m)) =
        (if s = 0 then NaN else if 0 < s then PInf else NInf)) \<and>
   (\<forall>s b. ssr m = Fin s \<and> df_resid m = Fin b \<and> 0 < b \<longrightarrow>
      col_MS (Residual (calculate_anova_table m)) = Fin (s / b))"
  by (simp add: calculate_anova_table_def Let_def)

text \<open>
  The claim as the specification states it fails: a model with residual degrees of
  freedom 0 gets a table, with NaN in the Residual mean square and in F.
\<close>

theorem anova_zero_residual_df_counterexample:
  "df_resid saturated_model = Fin 0 \<and>
   calculate_anova_table saturated_model =
     \<lparr>Regression = \<lparr>col_df = Fin 1, col_SS = Fin 8, col_MS = Fin 8, col_F = NaN,
                    col_Significance_F = Formatted4 NaN\<rparr>,
      Residual = \<lparr>col_df = Fin 0, col_SS = Fin 0, col_MS = NaN, col_F = NaN,
                  col_Significance_F = SigNaN\<rparr>,
      Total = \<lparr>col_df = Fin 1, col_SS = Fin 8, col_MS = NaN, col_F = NaN,
               col_Significance_F = SigNaN\<rparr>\<rparr>"
  by (simp add: saturated_model_def calculate_anova_table_def Let_def)

theorem anova_no_failure_path_witness:
  "col_MS (Residual (calculate_anova_table saturated_model)) = NaN \<and>
   col_MS (Residual (calculate_anova_table sample_model)) = Fin 1"
proof -
  have a: "ssr saturated_model = Fin 0 \<and> df_resid saturated_model = Fin 0"
    by (simp add: saturated_model_def)
  have b: "ssr sample_model = Fin 2 \<and> df_resid sample_model = Fin 2 \<and> (0::real) < 2"
    by (simp add: sample_model_def)
  from anova_no_failure_path [of saturated_model] a
  have 1: "col_MS (Residual (calculate_anova_table saturated_model)) = NaN"
    by simp
  from anova_no_failure_path [of sample_model]
  have "\<forall>s b. ssr sample_model = Fin s \<and> df_resid sample_model = Fin b \<and> 0 < b \<longrightarrow>
      col_MS (Residual (calculate_anova_table sample_model)) = Fin (s / b)"
    by (elim conjE)
  from this [rule_format, of 2 2] b
  have 2: "col_MS (Residual (calculate_anova_table sample_model)) = Fin 1"
    by simp
  from 1 2 show ?thesis by blast
qed

section \<open>Properties of the year filter\<close>

lemma distinct_predefined_names: "distinct (map fst predefined_years)"
  by (simp add: predefined_years_def)

lemma predefined_years_nonempty:
  "(scenario_name, ys) \<in> set predefined_years \<Longrightarrow> ys \<noteq> []"
proof -
  assume "(scenario_name, ys) \<in> set predefined_years"
  then have "\<exists>lo hi ex. ys = filter (\<lambda>year. year \<notin> ex) [lo..hi] \<and> lo \<le> hi \<and> lo \<notin> ex"
    unfolding predefined_years_def
    apply simp
    apply (elim disjE conjE)
    subgoal by (rule exI [of _ 2001], rule exI [of _ 2023], rule exI [of _ "{}"]) simp
    subgoal by (rule exI [of _ 2005], rule exI [of _ 2023], rule exI [of _ "{2009, 2016}"]) simp
    subgoal by (rule exI [of _ 2001], rule exI [of _ 2023], rule exI [of _ "{2020, 2021, 2022}"]) simp
    subgoal by (rule exI [of _ 2001], rule exI [of _ 2019], rule exI [of _ "{}"]) simp
    subgoal by (rule exI [of _ 2001], rule exI [of _ 2023],
          rule exI [of _ "{2009, 2013, 2020, 2021, 2022}"]) simp
    done
  then obtain lo hi ex where ys: "ys = filter (\<lambda>year. year \<notin> ex) [lo..hi]"
    and "lo \<le> hi" "lo \<notin> ex" by blast
  then have "lo \<in> set ys" by simp
  then show "ys \<noteq> []" by auto
qed

lemma effective_years_default:
  assumes "(scenario_name, ys) \<in> set predefined_years"
  shows "effective_years scenario_name [] = Inr ys"
proof -
  from assms have "map_of predefined_years scenario_name = Some ys"
    by (rule map_of_is_SomeI [OF distinct_predefined_names])
  then show ?thesis by (simp add: effective_years_def)
qed

text \<open>
  Claim C7. For each of the predefined scenarios an empty year selection is no error:
  the scenario's predefined years take its place, they are not empty, so the filter the
  scenario goes on with is never empty, and the scenario runs exactly as if it had been
  called with its predefined years.
\<close>

theorem empty_years_default:
  "(scenario_name, default_years) \<in> set predefined_years \<Longrightarrow>
     effective_years scenario_name [] = Inr default_years \<and>
     default_years \<noteq> [] \<and>
     (\<forall>years. effective_years scenario_name years \<noteq> Inr [] \<and>
        (\<exists>ys. effective_years scenario_name years = Inr ys)) \<and>
     process_scenario fit d app (scenario_name, []) =
       process_scenario fit d app (scenario_name, default_years)"
proof -
  assume a: "(scenario_name, default_years) \<in> set predefined_years"
  have 1: "effective_years scenario_name [] = Inr default_years"
    using a by (rule effective_years_default)
  have 2: "default_years \<noteq> []"
    using a by (rule predefined_years_nonempty)
  have 3: "effective_years scenario_name years \<noteq> Inr [] \<and>
        (\<exists>ys. effective_years scenario_name years = Inr ys)" for years
  proof (cases "years = []")
    case True
    with 1 2 show ?thesis by simp
  next
    case False
    then show ?thesis by (simp add: effective_years_def)
  qed
  have "effective_years scenario_name default_years = Inr default_years"
    using 2 by (simp add: effective_years_def)
  with 1 have 4: "process_scenario fit d app (scenario_name, []) =
       process_scenario fit d app (scenario_name, default_years)"
    by (simp add: process_scenario_def)
  from 1 2 3 4 show ?thesis by blast
qed

theorem empty_years_default_witness:
  "(''2001-2019'', [2001..2019]) \<in> set predefined_years \<and>
   effective_years ''2001-2019'' [] = Inr [2001..2019] \<and>
   [2001..2019] \<noteq> ([] :: int list)"
proof -
  have h: "(''2001-2019'', [2001..2019]) \<in> set predefined_years"
    by (simp add: predefined_years_def)
  from empty_years_default [OF h, of sample_fit sample_frame RegressionApp_init] h show ?thesis by blast
qed

section \<open>Properties of the counts\<close>

lemma length_itertools_combinations:
  "length (itertools_combinations xs r) = length xs choose r"
  by (induction xs r rule: itertools_combinations.induct) simp_all

lemma sum_choose_from_1:
  "sum_list (map (\<lambda>r. n choose r) [1 ..< n + 1]) = 2 ^ n - 1"
proof -
  have "{..n} = {0 ..< Suc n}"
    by auto
  then have "(\<Sum>k\<le>n. n choose k) = (n choose 0) + (\<Sum>k = Suc 0 ..< Suc n. n choose k)"
    by (simp only: sum.atLeast_Suc_lessThan [OF zero_less_Suc])
  then have "(\<Sum>k = Suc 0 ..< Suc n. n choose k) = 2 ^ n - 1"
    using choose_row_sum [of n] by simp
  moreover have "sum_list (map (\<lambda>r. n choose r) [1 ..< n + 1]) = (\<Sum>k = Suc 0 ..< Suc n. n choose k)"
    by (simp add: interv_sum_list_conv_sum_set_nat del: upt_Suc)
  ultimately show ?thesis by simp
qed

lemma show_variable_selection_counts:
  assumes "app_df app = Some d"
  shows "num_combinations (show_variable_selection app) =
           2 ^ length (predictor_columns d) - 1"
    and "total_regressions (show_variable_selection app) =
           5 * (2 ^ length (predictor_columns d) - 1)"
    and "completed_regressions (show_variable_selection app) = completed_regressions app"
    and "variables (show_variable_selection app) = predictor_columns d"
proof -
  have "sum_list (map (\<lambda>i. length (itertools_combinations (predictor_columns d) i))
           [1 ..< length (predictor_columns d) + 1]) =
        2 ^ length (predictor_columns d) - 1"
    by (simp only: length_itertools_combinations sum_choose_from_1)
  with assms show "num_combinations (show_variable_selection app) =
           2 ^ length (predictor_columns d) - 1"
    and "total_regressions (show_variable_selection app) =
           5 * (2 ^ length (predictor_columns d) - 1)"
    by (simp_all add: show_variable_selection_def Let_def del: upt_Suc)
  from assms show "completed_regressions (show_variable_selection app) = completed_regressions app"
    and "variables (show_variable_selection app) = predictor_columns d"
    by (simp_all add: show_variable_selection_def Let_def)
qed

section \<open>Properties of the scenario runner and the scheduler\<close>

text \<open>
  The enumeration raises for every list of predictors, so every scenario task raises
  and leaves the application state as it was.
\<close>

lemma all_combinations_raises: "all_combinations vs = Inl AttributeError"
  by (simp add: all_combinations_def itertools_chain_from_iterable_def)

lemma process_scenario_raises:
  "\<exists>e. process_scenario fit d app sc = (Inl e, app)"
  by (cases sc) (simp add: process_scenario_def all_combinations_raises split: sum.splits)

lemma process_scenario_attribute_error:
  "effective_years scenario_name years0 = Inr years \<Longrightarrow> select_years d years = Inr df_selected \<Longrightarrow>
   process_scenario fit d app (scenario_name, years0) = (Inl AttributeError, app)"
  by (simp add: process_scenario_def all_combinations_raises)

lemma process_scenario_result_indep:
  "fst (process_scenario fit d app sc) = fst (process_scenario fit d app' sc)"
  by (cases sc) (simp add: process_scenario_def all_combinations_raises split: sum.splits)

lemma fit_combinations_head_raises:
  "response_column d = Inr y \<Longrightarrow> fit df_selected y x_vars = Inl e \<Longrightarrow>
   fit_combinations fit d df_selected years ((i, x_vars) # rest) scenario_results app =
     (Inl e, app)"
  by (simp add: run_single_regression_def)

lemma fit_combinations_failure:
  "response_column d = Inr y \<Longrightarrow> (i, x_vars) \<in> set cs \<Longrightarrow> fit ds y x_vars = Inl e \<Longrightarrow>
   \<exists>e'. fst (fit_combinations fit d ds years cs acc app) = Inl e'"
proof (induction cs arbitrary: acc app)
  case Nil
  then show ?case by simp
next
  case (Cons c cs)
  obtain j xs where c: "c = (j, xs)" by (cases c)
  show ?case
  proof (cases "fit ds y xs")
    case (Inl e0)
    with Cons.prems(1) show ?thesis
      by (simp add: c run_single_regression_def)
  next
    case m: (Inr m)
    with Cons.prems c have mem: "(i, x_vars) \<in> set cs" by auto
    show ?thesis
    proof (cases "format_regression_output m")
      case (Inl e1)
      with m Cons.prems(1) show ?thesis by (simp add: c run_single_regression_def)
    next
      case out: (Inr out)
      let ?app1 = "app\<lparr>completed_regressions := completed_regressions app + 1\<rparr>"
      show ?thesis
      proof (cases "update_progress ?app1")
        case (Inl e2)
        with m out Cons.prems(1) show ?thesis
          by (simp add: c run_single_regression_def Let_def)
      next
        case (Inr shown)
        from Cons.IH [OF Cons.prems(1) mem Cons.prems(3)] m out Inr Cons.prems(1)
        show ?thesis by (simp add: c run_single_regression_def Let_def)
      qed
    qed
  qed
qed

lemma run_tasks_futures:
  "run_tasks fit d scs order fu app = (fu', app') \<Longrightarrow>
   fu' i = (if fu i = None \<and> i \<in> set order \<and> i < length scs
            then Some (fst (process_scenario fit d app0 (scs ! i))) else fu i)"
proof (induction order arbitrary: fu app)
  case Nil
  then show ?case by simp
next
  case (Cons j order)
  show ?case
  proof (cases "j < length scs \<and> fu j = None")
    case True
    obtain r app1 where p: "process_scenario fit d app (scs ! j) = (r, app1)"
      by (cases "process_scenario fit d app (scs ! j)")
    have r: "r = fst (process_scenario fit d app0 (scs ! j))"
      using p process_scenario_result_indep [of fit d app "scs ! j" app0] by simp
    from Cons.prems True p
    have "run_tasks fit d scs order (fu(j \<mapsto> r)) app1 = (fu', app')" by simp
    from Cons.IH [OF this] True r show ?thesis by auto
  next
    case False
    with Cons.prems have "run_tasks fit d scs order fu app = (fu', app')" by auto
    from Cons.IH [OF this] False show ?thesis by auto
  qed
qed

lemma collect_results_cong:
  "\<forall>i\<in>set js. fu i = fu' i \<Longrightarrow> collect_results fu js acc = collect_results fu' js acc"
  by (induction js arbitrary: acc) (auto split: option.splits sum.splits)

lemma collect_results_Raised:
  "\<forall>i\<in>set js. fu i \<noteq> None \<Longrightarrow> j \<in> set js \<Longrightarrow> fu j = Some (Inl e) \<Longrightarrow>
   \<exists>e'. collect_results fu js acc = Raised e'"
proof (induction js arbitrary: acc)
  case Nil
  then show ?case by simp
next
  case (Cons k js)
  show ?case
  proof (cases "fu k")
    case None
    with Cons.prems show ?thesis by simp
  next
    case (Some t)
    show ?thesis
    proof (cases t)
      case (Inl e0)
      with Some show ?thesis by simp
    next
      case (Inr r)
      with Some Cons.prems have "j \<in> set js" by auto
      with Cons.IH [of "acc @ [r]"] Cons.prems Some Inr show ?thesis by simp
    qed
  qed
qed

lemma collect_results_not_early:
  "collect_results fu js acc \<noteq> MissingYear \<and> collect_results fu js acc \<noteq> NoFile"
  by (induction js arbitrary: acc) (auto split: option.splits sum.splits)

lemma run_regression_scenarios_outcome:
  assumes "app_df app = Some d" "''Year'' \<in> set (columns d)"
    and "\<forall>i<length (scenarios app). i \<in> set order"
  shows "fst (run_regression_scenarios fit order app) =
     collect_results
       (\<lambda>i. if i < length (scenarios app)
             then Some (fst (process_scenario fit d app (scenarios app ! i))) else None)
       [0 ..< length (scenarios app)] []"
proof -
  obtain fu' app' where rt:
    "run_tasks fit d (scenarios app) order Map.empty app = (fu', app')"
    by (cases "run_tasks fit d (scenarios app) order Map.empty app")
  have "\<forall>i\<in>set [0 ..< length (scenarios app)].
          fu' i = (if i < length (scenarios app)
             then Some (fst (process_scenario fit d app (scenarios app ! i))) else None)"
    using run_tasks_futures [OF rt, of _ app] assms(3) by simp
  then have "collect_results fu' [0 ..< length (scenarios app)] [] =
     collect_results
       (\<lambda>i. if i < length (scenarios app)
             then Some (fst (process_scenario fit d app (scenarios app ! i))) else None)
       [0 ..< length (scenarios app)] []"
    by (rule collect_results_cong)
  with assms(1,2) rt show ?thesis
    by (simp add: run_regression_scenarios_def)
qed

text \<open>
  With a frame that has a Year column and at least one scenario, every schedule that
  finishes all tasks ends in an exception: the batch never returns a result list.
\<close>

lemma batch_raises:
  assumes df: "app_df app = Some d" and yr: "''Year'' \<in> set (columns d)"
    and ord: "\<forall>i<length (scenarios app). i \<in> set order"
    and ne: "scenarios app \<noteq> []"
  shows "\<exists>e. fst (run_regression_scenarios fit order app) = Raised e"
proof -
  let ?n = "length (scenarios app)"
  let ?fu = "\<lambda>i. if i < ?n then Some (fst (process_scenario fit d app (scenarios app ! i)))
                  else None"
  from process_scenario_raises [of fit d app "scenarios app ! 0"]
  obtain e where e: "fst (process_scenario fit d app (scenarios app ! 0)) = Inl e" by auto
  have f1: "\<forall>i\<in>set [0 ..< ?n]. ?fu i \<noteq> None" by simp
  have f2: "0 \<in> set [0 ..< ?n]" using ne by simp
  have f3: "?fu 0 = Some (Inl e)" using ne e by simp
  from collect_results_Raised [where fu = ?fu, OF f1 f2 f3]
  obtain e' where "collect_results ?fu [0 ..< ?n] [] = Raised e'" by blast
  with run_regression_scenarios_outcome [OF df yr ord, of fit] show ?thesis by auto
qed

text \<open>
  Claim C8. When the uploaded frame has no column named Year, the batch stops at the
  check with the one error message, whatever the fitter and the schedule: no scenario is
  started, there is no result list, the application state is unchanged, and in a run of
  the page script the counter of completed regressions is still 0.
\<close>

theorem missing_year_column_aborts:
  "''Year'' \<notin> set (columns d) \<Longrightarrow>
     (\<forall>app. app_df app = Some d \<longrightarrow>
        run_regression_scenarios fit order app = (MissingYear, app)) \<and>
     fst (main fit order (Some d) True) = Some MissingYear \<and>
     completed_regressions (snd (main fit order (Some d) True)) = 0"
  by (simp add: run_regression_scenarios_def main_def choose_file_def
      show_variable_selection_def RegressionApp_init_def Let_def)

theorem missing_year_column_aborts_witness:
  "''Year'' \<notin> set (columns yearless_frame) \<and>
   fst (main sample_fit [0, 1, 2, 3, 4] (Some yearless_frame) True) = Some MissingYear \<and>
   completed_regressions (snd (main sample_fit [0, 1, 2, 3, 4] (Some yearless_frame) True)) = 0"
proof -
  have h: "''Year'' \<notin> set (columns yearless_frame)"
    by (simp add: yearless_frame_def)
  from missing_year_column_aborts [OF h, of sample_fit "[0, 1, 2, 3, 4]"] h
  show ?thesis by blast
qed

lemma numeral_in_years:
  "(numeral n :: real) \<in> set (map of_int ys) \<longleftrightarrow> numeral n \<in> set ys"
proof -
  have "(numeral n :: real) = of_int (numeral n)" by simp
  then have "(numeral n :: real) \<in> set (map of_int ys) \<longleftrightarrow>
             (of_int (numeral n) :: real) \<in> of_int ` set ys"
    by (simp only: set_map)
  also have "\<dots> \<longleftrightarrow> numeral n \<in> set ys"
    by (rule inj_image_mem_iff) (simp add: inj_on_def)
  finally show ?thesis .
qed

lemmas eval_defs = process_scenario_def effective_years_def select_years_def
  predictor_columns_def response_column_def run_single_regression_def sample_fit_def
  format_regression_output_def update_progress_def numeral_in_years
  all_combinations_raises enumerate_eq_zip

section \<open>Properties of the batch\<close>

text \<open>
  Claim C1, as the code has it. Nothing in the scenario runner or around it catches an
  exception. When the fit of a combination raises inside the loop, the loop ends with
  that exception at once: no failure is recorded against the index of the combination,
  the results gathered so far are dropped and no later combination is fitted. When a
  scenario task raises, collecting its future raises again, so the batch raises and
  returns no results for any scenario.
\<close>

theorem exceptions_propagate:
  "(response_column d = Inr y \<and> fit df_selected y x_vars = Inl e \<longrightarrow>
      fit_combinations fit d df_selected years ((i, x_vars) # rest) scenario_results app =
        (Inl e, app)) \<and>
   (response_column d = Inr y \<and> (i, x_vars) \<in> set cs \<and> fit df_selected y x_vars = Inl e \<longrightarrow>
      (\<exists>e'. fst (fit_combinations fit d df_selected years cs scenario_results app) = Inl e')) \<and>
   (app_df app = Some d \<and> ''Year'' \<in> set (columns d) \<and>
    (\<forall>n<length (scenarios app). n \<in> set order) \<and>
    j < length (scenarios app) \<and>
    fst (process_scenario fit d app (scenarios app ! j)) = Inl e \<longrightarrow>
      (\<exists>e'. fst (run_regression_scenarios fit order app) = Raised e'))"
proof -
  have 1: "fit_combinations fit d df_selected years ((i, x_vars) # rest) scenario_results app =
        (Inl e, app)"
    if "response_column d = Inr y" "fit df_selected y x_vars = Inl e"
    using that by (rule fit_combinations_head_raises)
  have 2: "\<exists>e'. fst (fit_combinations fit d df_selected years cs scenario_results app) = Inl e'"
    if "response_column d = Inr y" "(i, x_vars) \<in> set cs" "fit df_selected y x_vars = Inl e"
    using fit_combinations_failure [where fit = fit and ds = df_selected, OF that] .
  have 3: "\<exists>e'. fst (run_regression_scenarios fit order app) = Raised e'"
    if df: "app_df app = Some d" and yr: "''Year'' \<in> set (columns d)"
      and ord: "\<forall>n<length (scenarios app). n \<in> set order"
      and j: "j < length (scenarios app)"
      and p: "fst (process_scenario fit d app (scenarios app ! j)) = Inl e"
  proof -
    let ?n = "length (scenarios app)"
    let ?fu = "\<lambda>i. if i < ?n then Some (fst (process_scenario fit d app (scenarios app ! i)))
                    else None"
    have f1: "\<forall>i\<in>set [0 ..< ?n]. ?fu i \<noteq> None" by simp
    have f2: "j \<in> set [0 ..< ?n]" using j by simp
    have f3: "?fu j = Some (Inl e)" using j p by simp
    from collect_results_Raised [where fu = ?fu, OF f1 f2 f3]
    obtain e' where "collect_results ?fu [0 ..< ?n] [] = Raised e'" by blast
    with run_regression_scenarios_outcome [OF df yr ord, of fit] show ?thesis by auto
  qed
  from 1 2 3 show ?thesis by blast
qed

lemma select_late_3:
  "select_years late_frame [2001..2019] = Inr (late_frame\<lparr>rows := []\<rparr>)"
  by (simp add: select_years_def late_frame_def numeral_in_years)

theorem exceptions_propagate_witness:
  "fit_combinations sample_fit late_frame (late_frame\<lparr>rows := []\<rparr>) [2001..2019]
      [(1, [''A''])] [] RegressionApp_init = (Inl ValueError, RegressionApp_init) \<and>
   (\<exists>e'. fst (fit_combinations sample_fit late_frame (late_frame\<lparr>rows := []\<rparr>) [2001..2019]
      [(1, [''A''])] [] RegressionApp_init) = Inl e') \<and>
   (\<exists>e'. fst (run_regression_scenarios sample_fit [0, 1, 2, 3, 4]
           (choose_file (Some late_frame) RegressionApp_init)) = Raised e')"
proof -
  let ?app = "choose_file (Some late_frame) RegressionApp_init"
  let ?ds = "late_frame\<lparr>rows := []\<rparr>"
  have y: "response_column late_frame = Inr ''Y''"
    by (simp add: response_column_def late_frame_def)
  have bad: "sample_fit ?ds ''Y'' [''A''] = Inl ValueError"
    by (simp add: sample_fit_def)
  have mem: "(1, [''A'']) \<in> set [(1::nat, [''A''])]" by simp
  have a: "app_df ?app = Some late_frame"
    by (simp add: choose_file_def)
  have b: "''Year'' \<in> set (columns late_frame)"
    by (simp add: late_frame_def)
  have n: "length (scenarios ?app) = 5"
    by (simp add: choose_file_def RegressionApp_init_def predefined_years_def)
  have c: "\<forall>n<length (scenarios ?app). n \<in> set [0, 1, 2, 3, 4]"
    unfolding n by (simp add: less_Suc_eq numeral_eq_Suc)
  have j: "3 < length (scenarios ?app)" unfolding n by simp
  have sc: "scenarios ?app ! 3 = (''2001-2019'', [2001..2019])"
    by (simp add: choose_file_def RegressionApp_init_def predefined_years_def)
  have ey: "effective_years ''2001-2019'' [2001..2019] = Inr [2001..2019]"
    by (simp add: effective_years_def)
  have p: "fst (process_scenario sample_fit late_frame ?app (scenarios ?app ! 3)) =
             Inl AttributeError"
    unfolding sc using process_scenario_attribute_error [OF ey select_late_3] by simp
  from exceptions_propagate [of late_frame "''Y''" sample_fit ?ds "[''A'']" ValueError
      "[2001..2019]" 1 "[]" "[]" RegressionApp_init "[(1, [''A''])]"]
    y bad mem
  have 1: "fit_combinations sample_fit late_frame ?ds [2001..2019]
      [(1, [''A''])] [] RegressionApp_init = (Inl ValueError, RegressionApp_init)"
    and 2: "\<exists>e'. fst (fit_combinations sample_fit late_frame ?ds [2001..2019]
      [(1, [''A''])] [] RegressionApp_init) = Inl e'"
    by blast+
  from exceptions_propagate [of late_frame _ sample_fit _ _ AttributeError _ _ _ _ ?app _
      "[0, 1, 2, 3, 4]" 3] a b c j p
  have 3: "\<exists>e'. fst (run_regression_scenarios sample_fit [0, 1, 2, 3, 4] ?app) = Raised e'"
    by blast
  from 1 2 3 show ?thesis by blast
qed

text \<open>
  The claim as the specification states it fails. The frame holds the years 2020 to
  2023 only, so the scenario 2001-2019 selects no row and the fit of its one combination
  is degenerate. The scenario does not complete with a recorded failure: it raises, and
  so does the batch. The loop itself, run on this combination, ends with the exception
  of the fit and records nothing.
\<close>

theorem degenerate_fit_not_isolated_counterexample:
  "select_years late_frame [2001..2019] = Inr (late_frame\<lparr>rows := []\<rparr>) \<and>
   length (rows (late_frame\<lparr>rows := []\<rparr>)) < length [''A''] + 2 \<and>
   fst (process_scenario sample_fit late_frame
          (choose_file (Some late_frame) RegressionApp_init)
          (''2001-2019'', [2001..2019])) = Inl AttributeError \<and>
   fst (run_regression_scenarios sample_fit [0, 1, 2, 3, 4]
          (choose_file (Some late_frame) RegressionApp_init)) = Raised AttributeError \<and>
   fit_combinations sample_fit late_frame (late_frame\<lparr>rows := []\<rparr>) [2001..2019]
      (enumerate 1 [[''A'']]) []
      (choose_file (Some late_frame) RegressionApp_init) =
     (Inl ValueError, choose_file (Some late_frame) RegressionApp_init)"
  by (simp add: run_regression_scenarios_def choose_file_def RegressionApp_init_def
      predefined_years_def eval_defs late_frame_def)

lemma combinations_A_B:
  "itertools_combinations [''A'', ''B''] 1 = [[''A''], [''B'']]"
  "itertools_combinations [''A'', ''B''] 2 = [[''A'', ''B'']]"
  by code_simp+

text \<open>
  Claim C2 says that the enumeration yields the \<open>2^N - 1\<close> non-empty subsets in
  order of size and that the scenario runner numbers them from 1. For the predictors
  A and B the enumeration of \<^verbatim>\<open>process_scenario\<close> raises AttributeError instead, and so
  does the scenario: no subset and no index is produced. The groups the claim describes
  are what \<^verbatim>\<open>itertools.combinations\<close> gives size by size, and
  \<^verbatim>\<open>show_variable_selection\<close>, which calls it directly, counts the 3 subsets.
\<close>

theorem enumeration_raises_attribute_error:
  "predictor_columns two_predictor_frame = [''A'', ''B''] \<and>
   all_combinations (predictor_columns two_predictor_frame) = Inl AttributeError \<and>
   process_scenario fit two_predictor_frame app (''2001-2019'', [2001..2019]) =
     (Inl AttributeError, app) \<and>
   itertools_combinations (predictor_columns two_predictor_frame) 1 = [[''A''], [''B'']] \<and>
   itertools_combinations (predictor_columns two_predictor_frame) 2 = [[''A'', ''B'']] \<and>
   num_combinations
     (show_variable_selection (choose_file (Some two_predictor_frame) RegressionApp_init)) = 3"
proof -
  have p: "predictor_columns two_predictor_frame = [''A'', ''B'']"
    by (simp add: predictor_columns_def two_predictor_frame_def)
  have 1: "all_combinations (predictor_columns two_predictor_frame) = Inl AttributeError"
    by (rule all_combinations_raises)
  have ey: "effective_years ''2001-2019'' [2001..2019] = Inr [2001..2019]"
    by (simp add: effective_years_def)
  have "\<exists>ds. select_years two_predictor_frame [2001..2019] = Inr ds"
    by (simp add: select_years_def two_predictor_frame_def)
  then obtain ds where "select_years two_predictor_frame [2001..2019] = Inr ds" ..
  with ey have 2: "process_scenario fit two_predictor_frame app (''2001-2019'', [2001..2019]) =
     (Inl AttributeError, app)"
    by (rule process_scenario_attribute_error)
  have "app_df (choose_file (Some two_predictor_frame) RegressionApp_init) =
          Some two_predictor_frame"
    by (simp add: choose_file_def)
  from show_variable_selection_counts(1) [OF this] p
  have 3: "num_combinations
     (show_variable_selection (choose_file (Some two_predictor_frame) RegressionApp_init)) = 3"
    by simp
  from p 1 2 3 combinations_A_B show ?thesis by simp
qed

text \<open>
  Claim C3 says that the total is computed before any fit runs, as the number of
  scenarios times \<open>2^N - 1\<close>, and that the completed count equals it after a batch
  without failing fits. On the sample frame (one predictor, five scenarios) the page
  script starts the batch with a total of 0, because \<^verbatim>\<open>show_variable_selection\<close> comes
  after the batch; every scenario raises at the enumeration, whatever the fitter; no
  fit runs, and the script run ends with both counters at 0. The claimed total, 5, is
  computed only in a script run without the button.
\<close>

theorem batch_raises_before_total_is_computed:
  "total_regressions (choose_file (Some sample_frame) RegressionApp_init) = 0 \<and>
   fst (main fit [0, 1, 2, 3, 4] (Some sample_frame) True) = Some (Raised AttributeError) \<and>
   completed_regressions (snd (main fit [0, 1, 2, 3, 4] (Some sample_frame) True)) = 0 \<and>
   total_regressions (snd (main fit [0, 1, 2, 3, 4] (Some sample_frame) True)) = 0 \<and>
   total_regressions (snd (main fit [0, 1, 2, 3, 4] (Some sample_frame) False)) = 5 \<and>
   length predefined_years * (2 ^ length (predictor_columns sample_frame) - 1) = 5"
  by (simp add: main_def run_regression_scenarios_def choose_file_def RegressionApp_init_def
      show_variable_selection_def predefined_years_def eval_defs sample_frame_def
      year_last_frame_def Let_def)

text \<open>
  Claim C9 says that the batch returns the list of scenario results in submission
  order whatever the order in which the tasks finish. On the sample frame the batch
  returns no list for either of two schedules: the future of the first scenario gives
  back the AttributeError its task raised.
\<close>

theorem no_result_list_for_any_schedule:
  "fst (run_regression_scenarios fit [0, 1, 2, 3, 4]
          (choose_file (Some sample_frame) RegressionApp_init)) = Raised AttributeError \<and>
   fst (run_regression_scenarios fit [4, 2, 0, 3, 1]
          (choose_file (Some sample_frame) RegressionApp_init)) = Raised AttributeError"
  by (simp add: main_def run_regression_scenarios_def choose_file_def RegressionApp_init_def
      show_variable_selection_def predefined_years_def eval_defs sample_frame_def
      year_last_frame_def Let_def)

text \<open>
  Claim C10 says that the columns are bound by position and that a Year column at
  index 2 or later passes the check and is a predictor in every subset enumeration. On
  a frame with the columns Region, Y, A, Year the predictor list is A, Year and the
  count of subsets includes those with Year, but every scenario raises at the
  enumeration: no subset with Year is enumerated, and the statement that binds the
  response to the column at index 1 is not reached.
\<close>

theorem year_predictor_never_enumerated:
  "variables (choose_file (Some year_last_frame) RegressionApp_init) = [''A'', ''Year''] \<and>
   num_combinations
     (show_variable_selection (choose_file (Some year_last_frame) RegressionApp_init)) = 3 \<and>
   process_scenario fit year_last_frame
      (choose_file (Some year_last_frame) RegressionApp_init) (''2001-2023'', [2001..2023]) =
     (Inl AttributeError, choose_file (Some year_last_frame) RegressionApp_init) \<and>
   fst (run_regression_scenarios fit [0, 1, 2, 3, 4]
          (choose_file (Some year_last_frame) RegressionApp_init)) = Raised AttributeError"
  by (simp add: main_def run_regression_scenarios_def choose_file_def RegressionApp_init_def
      show_variable_selection_def predefined_years_def eval_defs sample_frame_def
      year_last_frame_def Let_def)

section \<open>Properties of the coefficient rows\<close>















end
